theory Spec2Isabelle
  imports Complex_Main
begin

section \<open>The Mesh-TF model wrapper: \<^verbatim>\<open>t5/models/mtf_model.py\<close>\<close>

text \<open>
  The file holds one class, \<^verbatim>\<open>MtfModel\<close>, with a constructor and the three methods
  \<^verbatim>\<open>train\<close>, \<^verbatim>\<open>eval\<close> and \<^verbatim>\<open>predict\<close>. Every method marshals its arguments and calls
  into libraries that are not part of the file (\<^verbatim>\<open>mesh_tensorflow\<close>, \<^verbatim>\<open>gin\<close>,
  \<^verbatim>\<open>tensorflow\<close>). The embedding keeps the control flow and the data flow of the class and
  takes the library functions as parameters: an environment record gives, for each
  library function, the outcome of a call (an exception or a value), and every call the
  class makes is written to a trace, in program order.
\<close>

subsection \<open>Python values of the arguments\<close>

text \<open>
  A dict from feature key to integer, in insertion order. \<^verbatim>\<open>sequence_length\<close> is
  \<^verbatim>\<open>None\<close>, an integer or such a dict.
\<close>

type_synonym seq_len = "(string \<times> int) list"

datatype sequence_length_arg = SL_None | SL_Int int | SL_Dict seq_len

text \<open>\<^verbatim>\<open>batch_size\<close>: an integer or a (method, value) pair.\<close>

datatype batch_size_arg = BS_Int int | BS_Pair string int

text \<open>
  \<^verbatim>\<open>vocabulary\<close>: a vocabulary object or an (inputs, targets) tuple of two. Objects of the
  libraries (vocabularies, mesh shapes, estimators, functions, classes) are opaque values
  of a type \<open>'o\<close>.
\<close>

datatype 'o vocabulary_arg = Vocab_Single 'o | Vocab_Pair 'o 'o

text \<open>\<^verbatim>\<open>checkpoint_step\<close>: an int, a list of ints, or \<^verbatim>\<open>None\<close>.\<close>

datatype checkpoint_step_arg = CS_None | CS_Int int | CS_List "int list"

text \<open>
  \<^verbatim>\<open>functools.partial(mesh_train_dataset_fn, mixture_or_task_name=name)\<close> and its
  evaluation sibling: a function object with the name bound, not yet called.
\<close>

datatype dataset_fn =
    Partial_mesh_train_dataset_fn string
  | Partial_mesh_eval_dataset_fn string

text \<open>A value bound to a gin parameter: \<^verbatim>\<open>beam_size\<close> is an int, \<^verbatim>\<open>temperature\<close> a float
  that is only passed on, never computed with.\<close>

datatype gin_value = Gin_int int | Gin_float real

type_synonym gin_config = "string \<rightharpoonup> gin_value"

subsection \<open>The constructor's parameters and the keyword arguments of \<^verbatim>\<open>get_estimator\<close>\<close>

record 'o init_args =
  model_dir :: string
  tpu :: "string option"
  tpu_job_name :: "string option"
  tpu_zone :: "string option"
  gcp_project :: "string option"
  tpu_topology :: string
  model_parallelism :: int
  batch_size :: batch_size_arg
  sequence_length :: sequence_length_arg
  vocabulary :: "'o vocabulary_arg option"
  model_type :: string
  layout_rules :: string
  autostack :: bool
  learning_rate_schedule :: "'o option"
  keep_checkpoint_max :: "int option"
  save_checkpoints_steps :: int
  optimizer :: "'o option"
  predict_fn :: "'o option"
  variable_filter :: "string option"
  ensemble_inputs :: "int option"
  iterations_per_loop :: int
  init_checkpoint :: "string option"

record 'o estimator_kwargs =
  kw_model_type :: string
  kw_input_vocab_size :: int
  kw_output_vocab_size :: int
  kw_layout_rules :: 'o
  kw_mesh_shape :: 'o
  kw_model_dir :: string
  kw_batch_size :: int
  kw_sequence_length :: sequence_length_arg
  kw_autostack :: bool
  kw_learning_rate_schedule :: 'o
  kw_keep_checkpoint_max :: "int option"
  kw_save_checkpoints_steps :: int
  kw_optimizer :: 'o
  kw_predict_fn :: "'o option"
  kw_variable_filter :: "string option"
  kw_ensemble_inputs :: "int option"
  kw_use_tpu :: "string option"
  kw_tpu_job_name :: "string option"
  kw_iterations_per_loop :: int
  kw_cluster :: 'o
  kw_init_checkpoint :: "string option"

text \<open>The fields the constructor stores on \<^verbatim>\<open>self\<close>.\<close>

record 'o MtfModel =
  self_batch_size :: int
  self_sequence_length :: sequence_length_arg
  self_vocabulary :: "'o vocabulary_arg"
  self_model_dir :: string
  self_init_checkpoint :: "string option"
  self_model_type :: string
  self_ensemble_inputs :: "int option"
  self_estimator :: 'o

subsection \<open>Positional arguments of the three library entry points\<close>

record 'o train_model_args =
  tm_estimator :: 'o
  tm_vocabulary :: "'o vocabulary_arg"
  tm_sequence_length :: sequence_length_arg
  tm_batch_size :: int
  tm_dataset_fn :: dataset_fn
  tm_steps :: int
  tm_ensemble_inputs :: "int option"

record 'o eval_model_args =
  em_estimator :: 'o
  em_vocabulary :: "'o vocabulary_arg"
  em_sequence_length :: sequence_length_arg
  em_batch_size :: int
  em_split :: string
  em_model_dir :: string
  em_dataset_fn :: dataset_fn
  em_summary_dir :: "string option"
  em_checkpoint_step :: checkpoint_step_arg

record 'o infer_model_args =
  im_estimator :: 'o
  im_vocabulary :: "'o vocabulary_arg"
  im_sequence_length :: sequence_length_arg
  im_batch_size :: int
  im_model_type :: string
  im_model_dir :: string
  im_checkpoint_step :: checkpoint_step_arg
  im_input_file :: string
  im_output_file :: string

subsection \<open>Calls into the libraries\<close>

text \<open>One constructor for each library call the class makes, with the arguments passed.\<close>

datatype 'o call =
    Call_tpu_mesh_shape string int
  | Call_SentencePieceVocabulary
  | Call_compute_batch_size sequence_length_arg 'o string "string \<times> int"
  | Call_TPUClusterResolver string "string option" "string option"
  | Call_convert_to_layout_rules string
  | Call_convert_to_shape 'o
  | Call_get_estimator "'o estimator_kwargs"
  | Call_train_model "'o train_model_args"
  | Call_eval_model "'o eval_model_args"
  | Call_infer_model "'o infer_model_args"
  | Enter_unlock_config
  | Enter_config_scope string
  | Call_bind_parameter string gin_value
  | Exit_config_scope string
  | Exit_unlock_config

text \<open>
  The environment: what each library function answers. A call raises (\<open>Inl\<close>, with the
  exception) or returns (\<open>Inr\<close>). \<^verbatim>\<open>vocab_size\<close> is the property read from a vocabulary
  object; \<^verbatim>\<open>learning_rate_schedule_noam\<close> and \<^verbatim>\<open>AdafactorOptimizer\<close> are the function and
  the class the constructor falls back to.
\<close>

record ('o, 'x) env =
  tpu_mesh_shape :: "string \<Rightarrow> int \<Rightarrow> 'x + 'o"
  SentencePieceVocabulary :: "'x + 'o"
  vocab_size :: "'o \<Rightarrow> int"
  compute_batch_size :: "sequence_length_arg \<Rightarrow> 'o \<Rightarrow> string \<Rightarrow> string \<times> int \<Rightarrow> 'x + int"
  learning_rate_schedule_noam :: 'o
  AdafactorOptimizer :: 'o
  TPUClusterResolver :: "string \<Rightarrow> string option \<Rightarrow> string option \<Rightarrow> 'x + 'o"
  convert_to_layout_rules :: "string \<Rightarrow> 'x + 'o"
  convert_to_shape :: "'o \<Rightarrow> 'x + 'o"
  get_estimator :: "'o estimator_kwargs \<Rightarrow> 'x + 'o"
  train_model :: "'o train_model_args \<Rightarrow> 'x + unit"
  eval_model :: "'o eval_model_args \<Rightarrow> 'x + unit"
  infer_model :: "gin_config \<Rightarrow> 'o infer_model_args \<Rightarrow> 'x + unit"

subsection \<open>Sequencing calls: a trace and an outcome\<close>

text \<open>
  A computation yields the trace of the calls it made and either the exception that ended
  it or its value. \<open>and_then\<close> runs the continuation only when the first part returned,
  as a raised exception leaves a Python block.
\<close>

type_synonym ('c, 'x, 'a) outcome = "'c list \<times> ('x + 'a)"

definition ret :: "'a \<Rightarrow> ('c, 'x, 'a) outcome" where
  "ret a = ([], Inr a)"

definition call :: "'c \<Rightarrow> 'x + 'a \<Rightarrow> ('c, 'x, 'a) outcome" where
  "call c r = ([c], r)"

definition and_then ::
  "('c, 'x, 'a) outcome \<Rightarrow> ('a \<Rightarrow> ('c, 'x, 'b) outcome) \<Rightarrow> ('c, 'x, 'b) outcome" where
  "and_then m f =
     (case m of
        (l, Inl e) \<Rightarrow> (l, Inl e)
      | (l, Inr a) \<Rightarrow> (case f a of (l', r) \<Rightarrow> (l @ l', r)))"

subsection \<open>The constructor\<close>

text \<open>
  \<^verbatim>\<open>sequence_length or {"inputs": 512, "targets": 512}\<close>: Python's \<^verbatim>\<open>or\<close> takes the right
  operand when the left one is falsy, which \<^verbatim>\<open>None\<close>, the integer \<^verbatim>\<open>0\<close> and the empty dict
  are.
\<close>

fun sequence_length_or_default :: "sequence_length_arg \<Rightarrow> sequence_length_arg" where
  "sequence_length_or_default SL_None = SL_Dict [(''inputs'', 512), (''targets'', 512)]"
| "sequence_length_or_default (SL_Int n) =
     (if n = 0 then SL_Dict [(''inputs'', 512), (''targets'', 512)] else SL_Int n)"
| "sequence_length_or_default (SL_Dict d) =
     (if d = [] then SL_Dict [(''inputs'', 512), (''targets'', 512)] else SL_Dict d)"

text \<open>\<^verbatim>\<open>if isinstance(sequence_length, int): sequence_length = {...}\<close>\<close>

fun expand_int_sequence_length :: "sequence_length_arg \<Rightarrow> sequence_length_arg" where
  "expand_int_sequence_length (SL_Int n) = SL_Dict [(''inputs'', n), (''targets'', n)]"
| "expand_int_sequence_length s = s"

text \<open>The two statements on \<^verbatim>\<open>sequence_length\<close>, one after the other.\<close>

definition normalize_sequence_length :: "sequence_length_arg \<Rightarrow> sequence_length_arg" where
  "normalize_sequence_length s = expand_int_sequence_length (sequence_length_or_default s)"

text \<open>
  \<^verbatim>\<open>utils.inputs_vocabulary\<close> and \<^verbatim>\<open>utils.targets_vocabulary\<close> belong to
  \<^verbatim>\<open>mesh_tensorflow\<close>, not to the file. They select from the argument the constructor's
  docstring describes, ``a vocabulary.Vocabulary or (inputs_vocabulary,
  targets_vocabulary) tuple'': the component of a tuple, and a single vocabulary as it
  is.
\<close>

fun inputs_vocabulary :: "'o vocabulary_arg \<Rightarrow> 'o" where
  "inputs_vocabulary (Vocab_Single v) = v"
| "inputs_vocabulary (Vocab_Pair i t) = i"

fun targets_vocabulary :: "'o vocabulary_arg \<Rightarrow> 'o" where
  "targets_vocabulary (Vocab_Single v) = v"
| "targets_vocabulary (Vocab_Pair i t) = t"

text \<open>\<^verbatim>\<open>tpu if (tpu) else ""\<close>: \<^verbatim>\<open>None\<close> and the empty string are falsy.\<close>

fun tpu_or_empty :: "string option \<Rightarrow> string" where
  "tpu_or_empty None = ''''"
| "tpu_or_empty (Some s) = (if s \<noteq> [] then s else '''')"

text \<open>\<^verbatim>\<open>x or default\<close> for an optional function or class object (an object is truthy).\<close>

fun object_or :: "'o option \<Rightarrow> 'o \<Rightarrow> 'o" where
  "object_or None d = d"
| "object_or (Some f) d = f"

text \<open>
  \<^verbatim>\<open>vocabulary or SentencePieceVocabulary()\<close>: the default is instantiated only when the
  argument is \<^verbatim>\<open>None\<close>.
\<close>

definition vocabulary_or_default ::
  "('o, 'x) env \<Rightarrow> 'o vocabulary_arg option \<Rightarrow> ('o call, 'x, 'o vocabulary_arg) outcome" where
  "vocabulary_or_default env v =
     (case v of
        Some voc \<Rightarrow> ret voc
      | None \<Rightarrow>
          and_then (call Call_SentencePieceVocabulary (SentencePieceVocabulary env))
            (\<lambda>d. ret (Vocab_Single d)))"

text \<open>
  \<^verbatim>\<open>if not isinstance(batch_size, int): ... compute_batch_size(...) else: batch_size\<close>
\<close>

definition resolve_batch_size ::
  "('o, 'x) env \<Rightarrow> sequence_length_arg \<Rightarrow> 'o \<Rightarrow> string \<Rightarrow> batch_size_arg
     \<Rightarrow> ('o call, 'x, int) outcome" where
  "resolve_batch_size env seq mesh_shape layout bs =
     (case bs of
        BS_Pair method val \<Rightarrow>
          call (Call_compute_batch_size seq mesh_shape layout (method, val))
               (compute_batch_size env seq mesh_shape layout (method, val))
      | BS_Int n \<Rightarrow> ret n)"

text \<open>The keyword arguments written in the call of \<^verbatim>\<open>utils.get_estimator\<close>.\<close>

definition get_estimator_kwargs ::
  "('o, 'x) env \<Rightarrow> 'o init_args \<Rightarrow> 'o vocabulary_arg \<Rightarrow> sequence_length_arg \<Rightarrow> int
     \<Rightarrow> 'o \<Rightarrow> 'o \<Rightarrow> 'o \<Rightarrow> 'o estimator_kwargs" where
  "get_estimator_kwargs env a voc seq bs rules shape cluster =
     \<lparr> kw_model_type = model_type a,
       kw_input_vocab_size = vocab_size env (inputs_vocabulary voc),
       kw_output_vocab_size = vocab_size env (targets_vocabulary voc),
       kw_layout_rules = rules,
       kw_mesh_shape = shape,
       kw_model_dir = model_dir a,
       kw_batch_size = bs,
       kw_sequence_length = seq,
       kw_autostack = autostack a,
       kw_learning_rate_schedule =
         object_or (learning_rate_schedule a) (learning_rate_schedule_noam env),
       kw_keep_checkpoint_max = keep_checkpoint_max a,
       kw_save_checkpoints_steps = save_checkpoints_steps a,
       kw_optimizer = object_or (optimizer a) (AdafactorOptimizer env),
       kw_predict_fn = predict_fn a,
       kw_variable_filter = variable_filter a,
       kw_ensemble_inputs = ensemble_inputs a,
       kw_use_tpu = tpu a,
       kw_tpu_job_name = tpu_job_name a,
       kw_iterations_per_loop = iterations_per_loop a,
       kw_cluster = cluster,
       kw_init_checkpoint = init_checkpoint a \<rparr>"

text \<open>The assignments to \<^verbatim>\<open>self\<close>.\<close>

definition new_MtfModel ::
  "'o init_args \<Rightarrow> 'o vocabulary_arg \<Rightarrow> sequence_length_arg \<Rightarrow> int \<Rightarrow> 'o \<Rightarrow> 'o MtfModel" where
  "new_MtfModel a voc seq bs est =
     \<lparr> self_batch_size = bs,
       self_sequence_length = seq,
       self_vocabulary = voc,
       self_model_dir = model_dir a,
       self_init_checkpoint = init_checkpoint a,
       self_model_type = model_type a,
       self_ensemble_inputs = ensemble_inputs a,
       self_estimator = est \<rparr>"

text \<open>
  \<^verbatim>\<open>MtfModel.__init__\<close>, statement by statement. The keyword arguments of
  \<^verbatim>\<open>get_estimator\<close> are evaluated in the order they are written, so the two conversions
  are called before \<^verbatim>\<open>get_estimator\<close> itself. An exception of a library call ends the
  constructor: no object is returned.
\<close>

definition init :: "('o, 'x) env \<Rightarrow> 'o init_args \<Rightarrow> ('o call, 'x, 'o MtfModel) outcome" where
  "init env a =
     and_then (call (Call_tpu_mesh_shape (tpu_topology a) (model_parallelism a))
                    (tpu_mesh_shape env (tpu_topology a) (model_parallelism a)))
       (\<lambda>mesh_shape.
     and_then (vocabulary_or_default env (vocabulary a))
       (\<lambda>voc.
     let seq = normalize_sequence_length (sequence_length a) in
     and_then (resolve_batch_size env seq mesh_shape (layout_rules a) (batch_size a))
       (\<lambda>bs.
     and_then (call (Call_TPUClusterResolver (tpu_or_empty (tpu a)) (tpu_zone a) (gcp_project a))
                    (TPUClusterResolver env (tpu_or_empty (tpu a)) (tpu_zone a) (gcp_project a)))
       (\<lambda>cluster.
     and_then (call (Call_convert_to_layout_rules (layout_rules a))
                    (convert_to_layout_rules env (layout_rules a)))
       (\<lambda>rules.
     and_then (call (Call_convert_to_shape mesh_shape) (convert_to_shape env mesh_shape))
       (\<lambda>shape.
     let kw = get_estimator_kwargs env a voc seq bs rules shape cluster in
     and_then (call (Call_get_estimator kw) (get_estimator env kw))
       (\<lambda>est.
     ret (new_MtfModel a voc seq bs est))))))))"

subsection \<open>The three methods\<close>

text \<open>
  A method returns the object as the call leaves it, the trace of its library calls and
  its outcome (an exception or \<^verbatim>\<open>None\<close>).
\<close>

definition train ::
  "('o, 'x) env \<Rightarrow> 'o MtfModel \<Rightarrow> string \<Rightarrow> int \<Rightarrow> 'o MtfModel \<times> ('o call, 'x, unit) outcome" where
  "train env self mixture_or_task_name steps =
     (let dataset_fn = Partial_mesh_train_dataset_fn mixture_or_task_name;
          args = \<lparr> tm_estimator = self_estimator self,
                    tm_vocabulary = self_vocabulary self,
                    tm_sequence_length = self_sequence_length self,
                    tm_batch_size = self_batch_size self,
                    tm_dataset_fn = dataset_fn,
                    tm_steps = steps,
                    tm_ensemble_inputs = self_ensemble_inputs self \<rparr>
      in (self, call (Call_train_model args) (train_model env args)))"

text \<open>The method \<^verbatim>\<open>eval\<close>, named \<open>eval_method\<close> here.\<close>

definition eval_method ::
  "('o, 'x) env \<Rightarrow> 'o MtfModel \<Rightarrow> string \<Rightarrow> checkpoint_step_arg \<Rightarrow> string option \<Rightarrow> string
     \<Rightarrow> 'o MtfModel \<times> ('o call, 'x, unit) outcome" where
  "eval_method env self mixture_or_task_name checkpoint_step summary_dir split =
     (let dataset_fn = Partial_mesh_eval_dataset_fn mixture_or_task_name;
          args = \<lparr> em_estimator = self_estimator self,
                    em_vocabulary = self_vocabulary self,
                    em_sequence_length = self_sequence_length self,
                    em_batch_size = self_batch_size self,
                    em_split = split,
                    em_model_dir = self_model_dir self,
                    em_dataset_fn = dataset_fn,
                    em_summary_dir = summary_dir,
                    em_checkpoint_step = checkpoint_step \<rparr>
      in (self, call (Call_eval_model args) (eval_model env args)))"

text \<open>
  The global configuration of the \<^verbatim>\<open>gin\<close> library, which is outside the file: the table
  of bound parameters, from binding key to value. \<^verbatim>\<open>gin.bind_parameter(key, value)\<close>
  writes the table under the key it is given (the key names its own scope, here none);
  inside \<^verbatim>\<open>gin.unlock_config()\<close> the configuration is unlocked, so the call does not
  raise. \<^verbatim>\<open>gin.unlock_config()\<close> manages the lock of the configuration and
  \<^verbatim>\<open>gin.config_scope("decode")\<close> the stack of active scopes; neither reads nor writes
  the table, so they appear in the trace only, on entry and on exit.
\<close>

definition bind_parameter :: "string \<Rightarrow> gin_value \<Rightarrow> gin_config \<Rightarrow> gin_config" where
  "bind_parameter binding_key v g = g(binding_key \<mapsto> v)"

text \<open>
  \<^verbatim>\<open>with cm: body\<close>: the context manager is entered, the body runs, and the manager is
  exited whether the body returned or raised; the body's exception, if any, goes on to
  the caller.
\<close>

definition with_context :: "'c \<Rightarrow> 'c \<Rightarrow> ('c, 'x, 'a) outcome \<Rightarrow> ('c, 'x, 'a) outcome" where
  "with_context enter exit body = (case body of (l, r) \<Rightarrow> (enter # l @ [exit], r))"

text \<open>
  \<^verbatim>\<open>predict\<close> also takes and returns the gin configuration. The inference routine runs
  under the configuration the two bindings have produced.
\<close>

definition predict ::
  "('o, 'x) env \<Rightarrow> 'o MtfModel \<Rightarrow> gin_config \<Rightarrow> checkpoint_step_arg \<Rightarrow> string \<Rightarrow> string
     \<Rightarrow> int \<Rightarrow> real \<Rightarrow> 'o MtfModel \<times> gin_config \<times> ('o call, 'x, unit) outcome" where
  "predict env self g checkpoint_step input_file output_file beam_size temperature =
     (let g1 = bind_parameter ''Bitransformer.decode.beam_size'' (Gin_int beam_size) g;
          g2 = bind_parameter ''Bitransformer.decode.temperature'' (Gin_float temperature) g1;
          args = \<lparr> im_estimator = self_estimator self,
                    im_vocabulary = self_vocabulary self,
                    im_sequence_length = self_sequence_length self,
                    im_batch_size = self_batch_size self,
                    im_model_type = self_model_type self,
                    im_model_dir = self_model_dir self,
                    im_checkpoint_step = checkpoint_step,
                    im_input_file = input_file,
                    im_output_file = output_file \<rparr>;
          body =
            and_then (call (Call_bind_parameter ''Bitransformer.decode.beam_size''
                              (Gin_int beam_size)) (Inr ()))
              (\<lambda>_.
            and_then (call (Call_bind_parameter ''Bitransformer.decode.temperature''
                              (Gin_float temperature)) (Inr ()))
              (\<lambda>_.
            call (Call_infer_model args) (infer_model env g2 args)))
      in (self, g2,
          with_context Enter_unlock_config Exit_unlock_config
            (with_context (Enter_config_scope ''decode'') (Exit_config_scope ''decode'')
               body)))"

subsection \<open>A concrete environment\<close>

text \<open>
  The constructor's defaults, as its signature gives them, for a model directory and a
  TPU address.
\<close>

definition default_args :: "string \<Rightarrow> string option \<Rightarrow> 'o init_args" where
  "default_args dir address =
     \<lparr> model_dir = dir,
       tpu = address,
       tpu_job_name = None,
       tpu_zone = None,
       gcp_project = None,
       tpu_topology = ''2x2'',
       model_parallelism = 8,
       batch_size = BS_Pair ''tokens_per_batch'' 1024,
       sequence_length = SL_None,
       vocabulary = None,
       model_type = ''bitransformer'',
       layout_rules =
         ''ensemble:ensemble,batch:batch,d_ff:model,heads:model,vocab:model,experts:batch'',
       autostack = True,
       learning_rate_schedule = None,
       keep_checkpoint_max = None,
       save_checkpoints_steps = 5000,
       optimizer = None,
       predict_fn = None,
       variable_filter = None,
       ensemble_inputs = None,
       iterations_per_loop = 100,
       init_checkpoint = None \<rparr>"

text \<open>
  An environment in which every library call of the constructor returns: objects are
  named by strings, the default vocabulary has 32128 entries and any other one 100, and
  the inference routine rejects a nonzero temperature under a beam wider than one.
\<close>

definition decode_rejected :: "gin_config \<Rightarrow> bool" where
  "decode_rejected g =
     (case (g ''Bitransformer.decode.beam_size'', g ''Bitransformer.decode.temperature'') of
        (Some (Gin_int b), Some (Gin_float t)) \<Rightarrow> 1 < b \<and> t \<noteq> 0
      | _ \<Rightarrow> False)"

definition example_env :: "(string, string) env" where
  "example_env =
     \<lparr> tpu_mesh_shape = (\<lambda>topology parallelism. Inr (''mesh '' @ topology)),
       SentencePieceVocabulary = Inr ''default_spm'',
       vocab_size = (\<lambda>v. if v = ''default_spm'' then 32128 else 100),
       compute_batch_size = (\<lambda>seq mesh layout spec. Inr (snd spec div 512)),
       learning_rate_schedule_noam = ''learning_rate_schedule_noam'',
       AdafactorOptimizer = ''AdafactorOptimizer'',
       TPUClusterResolver = (\<lambda>address zone project. Inr (''cluster '' @ address)),
       convert_to_layout_rules = (\<lambda>rules. Inr (''rules '' @ rules)),
       convert_to_shape = (\<lambda>mesh. Inr (''shape '' @ mesh)),
       get_estimator = (\<lambda>kw. Inr ''estimator''),
       train_model = (\<lambda>args. Inr ()),
       eval_model = (\<lambda>args. Inr ()),
       infer_model =
         (\<lambda>g args. if decode_rejected g then Inl ''ValueError: beam search needs temperature 0''
                    else Inr ()) \<rparr>"

text \<open>An object as the constructor leaves it under the defaults, and a gin configuration
  in which both decoding parameters are already bound.\<close>

definition example_model :: "string MtfModel" where
  "example_model =
     new_MtfModel (default_args ''/tmp/model'' None) (Vocab_Single ''default_spm'')
       (SL_Dict [(''inputs'', 512), (''targets'', 512)]) 2 ''estimator''"

definition example_gin :: gin_config where
  "example_gin =
     [''Bitransformer.decode.beam_size'' \<mapsto> Gin_int 1,
      ''Bitransformer.decode.temperature'' \<mapsto> Gin_float 1]"

subsection \<open>A client: any sequence of method calls on one object\<close>

datatype method_call =
    Train string int
  | Eval string checkpoint_step_arg "string option" string
  | Predict checkpoint_step_arg string string int real

text \<open>
  The client holds the object and the gin configuration and collects the trace. It goes
  on after a call that raised (it may catch the exception), so that every sequence of
  calls is covered.
\<close>

fun invoke ::
  "('o, 'x) env \<Rightarrow> 'o MtfModel \<times> gin_config \<times> 'o call list \<Rightarrow> method_call
     \<Rightarrow> 'o MtfModel \<times> gin_config \<times> 'o call list" where
  "invoke env (self, g, l) (Train name steps) =
     (case train env self name steps of (self', l', r) \<Rightarrow> (self', g, l @ l'))"
| "invoke env (self, g, l) (Eval name checkpoint_step summary_dir split) =
     (case eval_method env self name checkpoint_step summary_dir split of
        (self', l', r) \<Rightarrow> (self', g, l @ l'))"
| "invoke env (self, g, l) (Predict checkpoint_step input_file output_file beam_size temperature) =
     (case predict env self g checkpoint_step input_file output_file beam_size temperature of
        (self', g', l', r) \<Rightarrow> (self', g', l @ l'))"

definition run ::
  "('o, 'x) env \<Rightarrow> 'o MtfModel \<times> gin_config \<times> 'o call list \<Rightarrow> method_call list
     \<Rightarrow> 'o MtfModel \<times> gin_config \<times> 'o call list" where
  "run env s calls = foldl (invoke env) s calls"

text \<open>Calls that build an estimator, size a batch or resolve a cluster.\<close>

fun is_get_estimator :: "'o call \<Rightarrow> bool" where
  "is_get_estimator (Call_get_estimator kw) = True"
| "is_get_estimator c = False"

fun is_compute_batch_size :: "'o call \<Rightarrow> bool" where
  "is_compute_batch_size (Call_compute_batch_size s m r p) = True"
| "is_compute_batch_size c = False"

text \<open>The estimator and the batch size a call hands to a library entry point, if it is
  one of the three.\<close>

fun passed_estimator :: "'o call \<Rightarrow> ('o \<times> int) option" where
  "passed_estimator (Call_train_model args) = Some (tm_estimator args, tm_batch_size args)"
| "passed_estimator (Call_eval_model args) = Some (em_estimator args, em_batch_size args)"
| "passed_estimator (Call_infer_model args) = Some (im_estimator args, im_batch_size args)"
| "passed_estimator c = None"

subsection \<open>The registry and the dataset functions\<close>

text \<open>
  \<^verbatim>\<open>train\<close> hands a dataset function to the training routine; the function, the
  registry it consults and the routine are outside the file. The error of a failed lookup
  carries the name that was looked up; any other error of the routine is wrapped. The
  events record what the dataset function did.
\<close>

datatype 'x lookup_error = Unregistered_name string | Library_error 'x

datatype dataset_event = Registry_lookup string | Dataset_constructed string

text \<open>Modelled from the spec: \<^verbatim>\<open>mesh_train_dataset_fn\<close> of \<^verbatim>\<open>t5.models.mesh_transformer\<close> and
  the global task/mixture registry, which the file imports and does not define. The spec:
  the registry is ``global, process-wide, lives outside this file; name lookups must
  resolve to a dataset-producing definition or the call fails''; the dataset function,
  ``given a registered name, produces a function usable by the external train/eval
  routines to yield batched, tokenized examples''. A registry maps a registered name to
  its definition.\<close>

definition mesh_train_dataset_fn ::
  "(string \<rightharpoonup> 'd) \<Rightarrow> string \<Rightarrow> (dataset_event, 'x lookup_error, 'd) outcome" where
  "mesh_train_dataset_fn registry mixture_or_task_name =
     and_then
       (call (Registry_lookup mixture_or_task_name)
          (case registry mixture_or_task_name of
             None \<Rightarrow> Inl (Unregistered_name mixture_or_task_name)
           | Some d \<Rightarrow> Inr d))
       (\<lambda>d. call (Dataset_constructed mixture_or_task_name) (Inr d))"

text \<open>Modelled from the spec: \<^verbatim>\<open>mesh_eval_dataset_fn\<close> of \<^verbatim>\<open>t5.models.mesh_transformer\<close>, the
  evaluation sibling, which the file imports and does not define; the spec describes the
  two dataset functions in the same words.\<close>

definition mesh_eval_dataset_fn ::
  "(string \<rightharpoonup> 'd) \<Rightarrow> string \<Rightarrow> (dataset_event, 'x lookup_error, 'd) outcome" where
  "mesh_eval_dataset_fn registry mixture_or_task_name =
     and_then
       (call (Registry_lookup mixture_or_task_name)
          (case registry mixture_or_task_name of
             None \<Rightarrow> Inl (Unregistered_name mixture_or_task_name)
           | Some d \<Rightarrow> Inr d))
       (\<lambda>d. call (Dataset_constructed mixture_or_task_name) (Inr d))"

text \<open>Calling the function object that \<^verbatim>\<open>functools.partial\<close> built.\<close>

fun apply_dataset_fn ::
  "(string \<rightharpoonup> 'd) \<Rightarrow> dataset_fn \<Rightarrow> (dataset_event, 'x lookup_error, 'd) outcome" where
  "apply_dataset_fn registry (Partial_mesh_train_dataset_fn name) =
     mesh_train_dataset_fn registry name"
| "apply_dataset_fn registry (Partial_mesh_eval_dataset_fn name) =
     mesh_eval_dataset_fn registry name"

text \<open>Modelled from the spec: the training routine \<^verbatim>\<open>utils.train_model\<close>, of which the file
  holds the call only. The spec: \<^verbatim>\<open>train\<close> ``delegates to an external training routine
  with the stored vocabulary, sequence length, batch size, ensemble width, and the dataset
  function'' and ``fails if the name is unregistered, or if the external training routine
  raises''. The routine obtains its examples from the dataset function and then fits the
  model on them (\<open>fit\<close>, a parameter); an error of either step ends it.\<close>

definition train_model_spec ::
  "(string \<rightharpoonup> 'd) \<Rightarrow> ('o train_model_args \<Rightarrow> 'd \<Rightarrow> 'x + unit) \<Rightarrow> 'o train_model_args
     \<Rightarrow> (dataset_event, 'x lookup_error, unit) outcome" where
  "train_model_spec registry fit args =
     and_then (apply_dataset_fn registry (tm_dataset_fn args))
       (\<lambda>ds. ([], map_sum Library_error id (fit args ds)))"

text \<open>The example environment with the training routine above, over a registry.\<close>

definition registry_env ::
  "(string \<rightharpoonup> 'd) \<Rightarrow> (string, string lookup_error) env" where
  "registry_env registry =
     \<lparr> tpu_mesh_shape = (\<lambda>topology parallelism. Inr (''mesh '' @ topology)),
       SentencePieceVocabulary = Inr ''default_spm'',
       vocab_size = (\<lambda>v. if v = ''default_spm'' then 32128 else 100),
       compute_batch_size = (\<lambda>seq mesh layout spec. Inr (snd spec div 512)),
       learning_rate_schedule_noam = ''learning_rate_schedule_noam'',
       AdafactorOptimizer = ''AdafactorOptimizer'',
       TPUClusterResolver = (\<lambda>address zone project. Inr (''cluster '' @ address)),
       convert_to_layout_rules = (\<lambda>rules. Inr (''rules '' @ rules)),
       convert_to_shape = (\<lambda>mesh. Inr (''shape '' @ mesh)),
       get_estimator = (\<lambda>kw. Inr ''estimator''),
       train_model = (\<lambda>args. snd (train_model_spec registry (\<lambda>a ds. Inr ()) args)),
       eval_model = (\<lambda>args. Inr ()),
       infer_model = (\<lambda>g args. Inr ()) \<rparr>"

section \<open>Properties\<close>

subsection \<open>Shared lemmas\<close>

lemma and_then_Inr:
  "and_then m f = (l, Inr b) \<longleftrightarrow>
     (\<exists>l1 a l2. m = (l1, Inr a) \<and> f a = (l2, Inr b) \<and> l = l1 @ l2)"
  by (auto simp: and_then_def split: prod.splits sum.splits)

lemma call_Inr: "call c r = (l, Inr a) \<longleftrightarrow> r = Inr a \<and> l = [c]"
  by (auto simp: call_def)

lemma ret_Inr: "ret a = (l, Inr b) \<longleftrightarrow> a = b \<and> l = []"
  by (auto simp: ret_def)

text \<open>What a constructor call that returned has done: every library call on its path
  returned, the trace is the sequence of those calls, and the object holds the values
  computed on the way.\<close>

lemma init_returns:
  assumes "init env a = (l, Inr self)"
  shows "\<exists>mesh lv voc lb bs cluster rules shape est.
      tpu_mesh_shape env (tpu_topology a) (model_parallelism a) = Inr mesh \<and>
      vocabulary_or_default env (vocabulary a) = (lv, Inr voc) \<and>
      resolve_batch_size env (normalize_sequence_length (sequence_length a)) mesh
        (layout_rules a) (batch_size a) = (lb, Inr bs) \<and>
      TPUClusterResolver env (tpu_or_empty (tpu a)) (tpu_zone a) (gcp_project a) = Inr cluster \<and>
      convert_to_layout_rules env (layout_rules a) = Inr rules \<and>
      convert_to_shape env mesh = Inr shape \<and>
      get_estimator env (get_estimator_kwargs env a voc
        (normalize_sequence_length (sequence_length a)) bs rules shape cluster) = Inr est \<and>
      l = Call_tpu_mesh_shape (tpu_topology a) (model_parallelism a) # lv @ lb @
          [Call_TPUClusterResolver (tpu_or_empty (tpu a)) (tpu_zone a) (gcp_project a),
           Call_convert_to_layout_rules (layout_rules a),
           Call_convert_to_shape mesh,
           Call_get_estimator (get_estimator_kwargs env a voc
             (normalize_sequence_length (sequence_length a)) bs rules shape cluster)] \<and>
      self = new_MtfModel a voc (normalize_sequence_length (sequence_length a)) bs est"
  using assms unfolding init_def Let_def and_then_Inr call_Inr ret_Inr
  by auto

lemma init_snd_returns:
  assumes "snd (init env a) = Inr self"
  shows "init env a = (fst (init env a), Inr self)"
  using assms by (metis prod.collapse)

text \<open>In the example environment the constructor returns for every argument record.\<close>

lemma init_example_env:
  "snd (init example_env a) =
     Inr (new_MtfModel a
            (case vocabulary a of None \<Rightarrow> Vocab_Single ''default_spm'' | Some v \<Rightarrow> v)
            (normalize_sequence_length (sequence_length a))
            (case batch_size a of BS_Int n \<Rightarrow> n | BS_Pair m v \<Rightarrow> v div 512)
            ''estimator'')"
  by (simp add: init_def example_env_def and_then_def call_def ret_def
      vocabulary_or_default_def resolve_batch_size_def Let_def
      split: option.splits batch_size_arg.splits)

subsection \<open>Normalisation of the sequence length\<close>

text \<open>
  Claim C1, as amended. For every integer \<open>n\<close> other than zero passed as
  \<^verbatim>\<open>sequence_length\<close>, a constructor call that returns has stored the mapping
  \<^verbatim>\<open>{"inputs": n, "targets": n}\<close>. (The integer \<open>0\<close> is falsy, so
  \<^verbatim>\<open>sequence_length or {...}\<close> replaces it by the default before the integer test.)
\<close>

theorem init_int_sequence_length:
  assumes "sequence_length a = SL_Int n" and "n \<noteq> 0" and "snd (init env a) = Inr self"
  shows "self_sequence_length self = SL_Dict [(''inputs'', n), (''targets'', n)]"
proof -
  from init_returns [OF init_snd_returns [OF assms(3)]]
  have "self_sequence_length self = normalize_sequence_length (sequence_length a)"
    by (auto simp: new_MtfModel_def)
  with assms(1,2) show ?thesis
    by (simp add: normalize_sequence_length_def)
qed

text \<open>The theorem at \<open>n = 128\<close>, in the example environment.\<close>

theorem init_int_sequence_length_witness:
  "map_sum id self_sequence_length
     (snd (init example_env
        ((default_args ''/tmp/model'' None)\<lparr>sequence_length := SL_Int 128\<rparr>)))
   = Inr (SL_Dict [(''inputs'', 128), (''targets'', 128)])"
proof -
  let ?a = "(default_args ''/tmp/model'' None)\<lparr>sequence_length := SL_Int 128\<rparr>
              :: string init_args"
  obtain self where h: "snd (init example_env ?a) = Inr self"
    using init_example_env [of ?a] by blast
  have "sequence_length ?a = SL_Int 128" by simp
  from init_int_sequence_length [OF this _ h]
  have "self_sequence_length self = SL_Dict [(''inputs'', 128), (''targets'', 128)]" by simp
  with h show ?thesis by simp
qed

text \<open>Claim C1 as stated fails at \<open>n = 0\<close>: the stored mapping is the default one, with
  512 for both keys, not \<^verbatim>\<open>{"inputs": 0, "targets": 0}\<close>.\<close>

theorem init_int_zero_counterexample:
  "map_sum id self_sequence_length
     (snd (init example_env
        ((default_args ''/tmp/model'' None)\<lparr>sequence_length := SL_Int 0\<rparr>)))
   \<noteq> Inr (SL_Dict [(''inputs'', 0), (''targets'', 0)])
   \<and> map_sum id self_sequence_length
     (snd (init example_env
        ((default_args ''/tmp/model'' None)\<lparr>sequence_length := SL_Int 0\<rparr>)))
   = Inr (SL_Dict [(''inputs'', 512), (''targets'', 512)])"
  by (simp add: init_example_env new_MtfModel_def normalize_sequence_length_def)

text \<open>
  Claim C2, as amended. For every mapping that is not empty passed as
  \<^verbatim>\<open>sequence_length\<close>, a constructor call that returns has stored exactly that mapping.
  (The empty dict is falsy, so \<^verbatim>\<open>sequence_length or {...}\<close> replaces it by the default.)
\<close>

theorem init_dict_sequence_length:
  assumes "sequence_length a = SL_Dict d" and "d \<noteq> []" and "snd (init env a) = Inr self"
  shows "self_sequence_length self = SL_Dict d"
proof -
  from init_returns [OF init_snd_returns [OF assms(3)]]
  have "self_sequence_length self = normalize_sequence_length (sequence_length a)"
    by (auto simp: new_MtfModel_def)
  with assms(1,2) show ?thesis
    by (simp add: normalize_sequence_length_def)
qed

text \<open>The theorem at \<^verbatim>\<open>{"inputs": 512, "targets": 128}\<close>, in the example environment.\<close>

theorem init_dict_sequence_length_witness:
  "map_sum id self_sequence_length
     (snd (init example_env
        ((default_args ''/tmp/model'' None)
           \<lparr>sequence_length := SL_Dict [(''inputs'', 512), (''targets'', 128)]\<rparr>)))
   = Inr (SL_Dict [(''inputs'', 512), (''targets'', 128)])"
proof -
  let ?a = "(default_args ''/tmp/model'' None)
              \<lparr>sequence_length := SL_Dict [(''inputs'', 512), (''targets'', 128)]\<rparr>
              :: string init_args"
  obtain self where h: "snd (init example_env ?a) = Inr self"
    using init_example_env [of ?a] by blast
  have "sequence_length ?a = SL_Dict [(''inputs'', 512), (''targets'', 128)]" by simp
  from init_dict_sequence_length [OF this _ h]
  have "self_sequence_length self = SL_Dict [(''inputs'', 512), (''targets'', 128)]" by simp
  with h show ?thesis by simp
qed

text \<open>Claim C2 as stated fails at the empty mapping: the stored mapping is the default
  one, not the empty one that was passed.\<close>

theorem init_empty_dict_counterexample:
  "map_sum id self_sequence_length
     (snd (init example_env
        ((default_args ''/tmp/model'' None)\<lparr>sequence_length := SL_Dict []\<rparr>)))
   \<noteq> Inr (SL_Dict [])
   \<and> map_sum id self_sequence_length
     (snd (init example_env
        ((default_args ''/tmp/model'' None)\<lparr>sequence_length := SL_Dict []\<rparr>)))
   = Inr (SL_Dict [(''inputs'', 512), (''targets'', 512)])"
  by (simp add: init_example_env new_MtfModel_def normalize_sequence_length_def)

subsection \<open>Resolution of the batch size\<close>

lemma init_int_no_compute:
  assumes "batch_size a = BS_Int n" and "c \<in> set (fst (init env a))"
  shows "\<not> is_compute_batch_size c"
  using assms
  unfolding init_def Let_def and_then_def call_def ret_def vocabulary_or_default_def
    resolve_batch_size_def
  by (auto split: sum.splits prod.splits option.splits batch_size_arg.splits)

text \<open>
  Claim C4. If \<^verbatim>\<open>batch_size\<close> is a plain integer \<open>n\<close>, the constructor never calls
  \<^verbatim>\<open>compute_batch_size\<close> (on no path, returning or raising), a constructor call that
  returns has stored \<open>n\<close> as the batch size, and \<open>n\<close> is the batch size handed to
  \<^verbatim>\<open>get_estimator\<close>.
\<close>

theorem init_int_batch_size:
  assumes "batch_size a = BS_Int n"
  shows "(\<forall>c \<in> set (fst (init env a)). \<not> is_compute_batch_size c)
       \<and> (\<forall>self. snd (init env a) = Inr self \<longrightarrow> self_batch_size self = n)
       \<and> (\<forall>kw. Call_get_estimator kw \<in> set (fst (init env a)) \<longrightarrow> kw_batch_size kw = n)"
proof (intro conjI allI impI)
  show "\<forall>c \<in> set (fst (init env a)). \<not> is_compute_batch_size c"
    using init_int_no_compute [OF assms] by blast
next
  fix self assume h: "snd (init env a) = Inr self"
  from init_returns [OF init_snd_returns [OF h]] assms
  show "self_batch_size self = n"
    by (auto simp: new_MtfModel_def resolve_batch_size_def ret_def)
next
  fix kw assume "Call_get_estimator kw \<in> set (fst (init env a))"
  then show "kw_batch_size kw = n"
    using assms
    unfolding init_def Let_def and_then_def call_def ret_def vocabulary_or_default_def resolve_batch_size_def
    by (auto simp: get_estimator_kwargs_def split: sum.splits prod.splits option.splits batch_size_arg.splits)
qed

text \<open>Claim C4 at \<^verbatim>\<open>batch_size=16\<close>, in the example environment.\<close>

theorem init_int_batch_size_witness:
  "map_sum id self_batch_size
     (snd (init example_env ((default_args ''/tmp/model'' None)\<lparr>batch_size := BS_Int 16\<rparr>)))
   = Inr 16
   \<and> (\<forall>s m r p. Call_compute_batch_size s m r p \<notin>
        set (fst (init example_env ((default_args ''/tmp/model'' None)\<lparr>batch_size := BS_Int 16\<rparr>))))"
proof -
  let ?a = "(default_args ''/tmp/model'' None)\<lparr>batch_size := BS_Int 16\<rparr> :: string init_args"
  obtain self where h: "snd (init example_env ?a) = Inr self"
    using init_example_env [of ?a] by blast
  have b: "batch_size ?a = BS_Int 16" by simp
  note t = init_int_batch_size [OF b, of example_env]
  from t h have "self_batch_size self = 16" by blast
  moreover from t have "\<forall>s m r p. Call_compute_batch_size s m r p \<notin> set (fst (init example_env ?a))"
    by fastforce
  ultimately show ?thesis using h by simp
qed

text \<open>
  Claim C5. If \<^verbatim>\<open>batch_size\<close> is a (method, value) pair, a constructor call that returns
  has called \<^verbatim>\<open>compute_batch_size\<close> on the normalised sequence length, the mesh shape
  that \<^verbatim>\<open>tpu_mesh_shape\<close> gave for the topology and the parallelism, the layout rules
  and the pair, and has stored what that call returned.
\<close>

theorem init_pair_batch_size:
  assumes "batch_size a = BS_Pair method val" and "snd (init env a) = Inr self"
  shows "\<exists>mesh. tpu_mesh_shape env (tpu_topology a) (model_parallelism a) = Inr mesh
          \<and> compute_batch_size env (normalize_sequence_length (sequence_length a)) mesh
               (layout_rules a) (method, val) = Inr (self_batch_size self)
          \<and> Call_compute_batch_size (normalize_sequence_length (sequence_length a)) mesh
               (layout_rules a) (method, val) \<in> set (fst (init env a))"
proof -
  from init_returns [OF init_snd_returns [OF assms(2)]] assms(1)
  show ?thesis
    by (auto simp: new_MtfModel_def resolve_batch_size_def call_def)
qed

text \<open>Claim C5 at the default pair \<^verbatim>\<open>("tokens_per_batch", 1024)\<close>, in the example
  environment, whose sizing function divides the value by 512.\<close>

theorem init_pair_batch_size_witness:
  "map_sum id self_batch_size (snd (init example_env (default_args ''/tmp/model'' None))) = Inr 2
   \<and> compute_batch_size example_env (SL_Dict [(''inputs'', 512), (''targets'', 512)]) ''mesh 2x2''
       ''ensemble:ensemble,batch:batch,d_ff:model,heads:model,vocab:model,experts:batch''
       (''tokens_per_batch'', 1024) = Inr 2"
proof -
  let ?a = "default_args ''/tmp/model'' None :: string init_args"
  obtain self where h: "snd (init example_env ?a) = Inr self"
    using init_example_env [of ?a] by blast
  have b: "batch_size ?a = BS_Pair ''tokens_per_batch'' 1024" by (simp add: default_args_def)
  from init_pair_batch_size [OF b h] obtain mesh where
    m: "tpu_mesh_shape example_env (tpu_topology ?a) (model_parallelism ?a) = Inr mesh" and
    c: "compute_batch_size example_env (normalize_sequence_length (sequence_length ?a)) mesh
               (layout_rules ?a) (''tokens_per_batch'', 1024) = Inr (self_batch_size self)"
    by blast
  from c have "self_batch_size self = 2"
    by (simp add: example_env_def)
  with h show ?thesis by (simp add: example_env_def)
qed

subsection \<open>The default vocabulary\<close>

text \<open>
  Claim C6. If \<^verbatim>\<open>vocabulary\<close> is omitted (\<^verbatim>\<open>None\<close>), a constructor call that returns
  has instantiated \<^verbatim>\<open>SentencePieceVocabulary()\<close>, has stored that object as the
  vocabulary, and has built its estimator with that object's \<^verbatim>\<open>vocab_size\<close> as both the
  input and the output vocabulary size.
\<close>

theorem init_default_vocabulary:
  assumes "vocabulary a = None" and "snd (init env a) = Inr self"
  shows "\<exists>d kw. SentencePieceVocabulary env = Inr d
          \<and> Call_SentencePieceVocabulary \<in> set (fst (init env a))
          \<and> self_vocabulary self = Vocab_Single d
          \<and> Call_get_estimator kw \<in> set (fst (init env a))
          \<and> get_estimator env kw = Inr (self_estimator self)
          \<and> kw_input_vocab_size kw = vocab_size env d
          \<and> kw_output_vocab_size kw = vocab_size env d"
proof -
  let ?seq = "normalize_sequence_length (sequence_length a)"
  from init_returns [OF init_snd_returns [OF assms(2)]]
  obtain mesh lv voc lb bs cluster rules shape est where
    v: "vocabulary_or_default env (vocabulary a) = (lv, Inr voc)" and
    e: "get_estimator env (get_estimator_kwargs env a voc ?seq bs rules shape cluster) = Inr est" and
    l: "fst (init env a) = Call_tpu_mesh_shape (tpu_topology a) (model_parallelism a) # lv @ lb @
          [Call_TPUClusterResolver (tpu_or_empty (tpu a)) (tpu_zone a) (gcp_project a),
           Call_convert_to_layout_rules (layout_rules a),
           Call_convert_to_shape mesh,
           Call_get_estimator (get_estimator_kwargs env a voc ?seq bs rules shape cluster)]" and
    s: "self = new_MtfModel a voc ?seq bs est"
    by blast
  from v assms(1) obtain d where
    d: "SentencePieceVocabulary env = Inr d" "voc = Vocab_Single d"
       "lv = [Call_SentencePieceVocabulary]"
    by (auto simp: vocabulary_or_default_def and_then_Inr call_Inr ret_Inr)
  let ?kw = "get_estimator_kwargs env a voc ?seq bs rules shape cluster"
  have "SentencePieceVocabulary env = Inr d
          \<and> Call_SentencePieceVocabulary \<in> set (fst (init env a))
          \<and> self_vocabulary self = Vocab_Single d
          \<and> Call_get_estimator ?kw \<in> set (fst (init env a))
          \<and> get_estimator env ?kw = Inr (self_estimator self)
          \<and> kw_input_vocab_size ?kw = vocab_size env d
          \<and> kw_output_vocab_size ?kw = vocab_size env d"
    using d e s by (simp add: l new_MtfModel_def get_estimator_kwargs_def)
  then show ?thesis by blast
qed

text \<open>Claim C6 at the default arguments, in the example environment, whose default
  vocabulary has 32128 entries.\<close>

theorem init_default_vocabulary_witness:
  "SentencePieceVocabulary example_env = Inr ''default_spm''
   \<and> map_sum id self_vocabulary (snd (init example_env (default_args ''/tmp/model'' None)))
       = Inr (Vocab_Single ''default_spm'')
   \<and> (\<exists>kw. Call_get_estimator kw \<in> set (fst (init example_env (default_args ''/tmp/model'' None)))
        \<and> kw_input_vocab_size kw = 32128 \<and> kw_output_vocab_size kw = 32128)"
proof -
  let ?a = "default_args ''/tmp/model'' None :: string init_args"
  obtain self where h: "snd (init example_env ?a) = Inr self"
    using init_example_env [of ?a] by blast
  have b: "vocabulary ?a = None" by (simp add: default_args_def)
  from init_default_vocabulary [OF b h] obtain d kw where
    d: "SentencePieceVocabulary example_env = Inr d" "self_vocabulary self = Vocab_Single d"
       "Call_get_estimator kw \<in> set (fst (init example_env ?a))"
       "kw_input_vocab_size kw = vocab_size example_env d"
       "kw_output_vocab_size kw = vocab_size example_env d"
    by blast
  from d(1) have e: "d = ''default_spm''" by (simp add: example_env_def)
  have "vocab_size example_env ''default_spm'' = 32128" by (simp add: example_env_def)
  with d e h show ?thesis by auto
qed

subsection \<open>The TPU address\<close>

text \<open>
  Claim C10. In a constructor call that returns, the cluster resolver has received the
  empty string when \<^verbatim>\<open>tpu\<close> is \<^verbatim>\<open>None\<close> or the empty string, and the string itself
  when it is a non-empty string; \<^verbatim>\<open>use_tpu\<close>, as handed to \<^verbatim>\<open>get_estimator\<close> for the
  estimator the object holds, is the \<^verbatim>\<open>tpu\<close> argument unchanged in every case.
\<close>

theorem init_tpu_address:
  assumes "snd (init env a) = Inr self"
  shows "(tpu a = None \<or> tpu a = Some '''' \<longrightarrow>
            Call_TPUClusterResolver '''' (tpu_zone a) (gcp_project a) \<in> set (fst (init env a)))
       \<and> (\<forall>s. tpu a = Some s \<and> s \<noteq> '''' \<longrightarrow>
            Call_TPUClusterResolver s (tpu_zone a) (gcp_project a) \<in> set (fst (init env a)))
       \<and> (\<exists>kw. Call_get_estimator kw \<in> set (fst (init env a))
            \<and> get_estimator env kw = Inr (self_estimator self)
            \<and> kw_use_tpu kw = tpu a)"
proof -
  let ?seq = "normalize_sequence_length (sequence_length a)"
  from init_returns [OF init_snd_returns [OF assms]]
  obtain mesh lv voc lb bs cluster rules shape est where
    e: "get_estimator env (get_estimator_kwargs env a voc ?seq bs rules shape cluster) = Inr est" and
    l: "fst (init env a) = Call_tpu_mesh_shape (tpu_topology a) (model_parallelism a) # lv @ lb @
          [Call_TPUClusterResolver (tpu_or_empty (tpu a)) (tpu_zone a) (gcp_project a),
           Call_convert_to_layout_rules (layout_rules a),
           Call_convert_to_shape mesh,
           Call_get_estimator (get_estimator_kwargs env a voc ?seq bs rules shape cluster)]" and
    s: "self = new_MtfModel a voc ?seq bs est"
    by blast
  let ?kw = "get_estimator_kwargs env a voc ?seq bs rules shape cluster"
  have 1: "tpu a = None \<or> tpu a = Some '''' \<longrightarrow>
            Call_TPUClusterResolver '''' (tpu_zone a) (gcp_project a) \<in> set (fst (init env a))"
    by (auto simp: l)
  have 2: "\<forall>s. tpu a = Some s \<and> s \<noteq> '''' \<longrightarrow>
            Call_TPUClusterResolver s (tpu_zone a) (gcp_project a) \<in> set (fst (init env a))"
    by (auto simp: l)
  have "Call_get_estimator ?kw \<in> set (fst (init env a))
            \<and> get_estimator env ?kw = Inr (self_estimator self)
            \<and> kw_use_tpu ?kw = tpu a"
    using e s by (simp add: l new_MtfModel_def get_estimator_kwargs_def)
  then have 3: "\<exists>kw. Call_get_estimator kw \<in> set (fst (init env a))
            \<and> get_estimator env kw = Inr (self_estimator self)
            \<and> kw_use_tpu kw = tpu a"
    by blast
  from 1 2 3 show ?thesis by blast
qed

text \<open>Claim C10 at the empty string and at a TPU address, in the example environment.\<close>

theorem init_tpu_address_witness:
  "Call_TPUClusterResolver '''' None None \<in>
     set (fst (init example_env (default_args ''/tmp/model'' (Some ''''))))
   \<and> (\<exists>kw. Call_get_estimator kw \<in>
          set (fst (init example_env (default_args ''/tmp/model'' (Some ''''))))
        \<and> kw_use_tpu kw = Some '''')
   \<and> Call_TPUClusterResolver ''grpc://10.240.1.2:8470'' None None \<in>
     set (fst (init example_env (default_args ''/tmp/model'' (Some ''grpc://10.240.1.2:8470''))))
   \<and> (\<exists>kw. Call_get_estimator kw \<in>
          set (fst (init example_env (default_args ''/tmp/model'' (Some ''grpc://10.240.1.2:8470''))))
        \<and> kw_use_tpu kw = Some ''grpc://10.240.1.2:8470'')"
proof -
  let ?a = "default_args ''/tmp/model'' (Some '''') :: string init_args"
  let ?b = "default_args ''/tmp/model'' (Some ''grpc://10.240.1.2:8470'') :: string init_args"
  obtain self where h: "snd (init example_env ?a) = Inr self"
    using init_example_env [of ?a] by blast
  obtain self' where h': "snd (init example_env ?b) = Inr self'"
    using init_example_env [of ?b] by blast
  have a: "tpu ?a = Some ''''" "tpu_zone ?a = None" "gcp_project ?a = None"
    by (simp_all add: default_args_def)
  have b: "tpu ?b = Some ''grpc://10.240.1.2:8470''" "tpu_zone ?b = None" "gcp_project ?b = None"
    by (simp_all add: default_args_def)
  from init_tpu_address [OF h] a
  have 1: "Call_TPUClusterResolver '''' None None \<in> set (fst (init example_env ?a))"
    and 2: "\<exists>kw. Call_get_estimator kw \<in> set (fst (init example_env ?a)) \<and> kw_use_tpu kw = Some ''''"
    by auto
  from init_tpu_address [OF h'] b
  have 3: "Call_TPUClusterResolver ''grpc://10.240.1.2:8470'' None None \<in> set (fst (init example_env ?b))"
    and 4: "\<exists>kw. Call_get_estimator kw \<in> set (fst (init example_env ?b))
               \<and> kw_use_tpu kw = Some ''grpc://10.240.1.2:8470''"
    by auto
  from 1 2 3 4 show ?thesis by blast
qed

subsection \<open>Prediction\<close>

text \<open>
  Claim C7. For every \<^verbatim>\<open>beam_size\<close> and every \<^verbatim>\<open>temperature\<close>, whatever their relation,
  \<^verbatim>\<open>predict\<close> binds exactly the two given values to the two decoding parameters, calls
  \<^verbatim>\<open>infer_model\<close> once, after the bindings and inside both contexts, and its outcome is
  the outcome of that call: \<^verbatim>\<open>predict\<close> checks nothing and raises nothing of its own.
\<close>

theorem predict_binds_and_delegates:
  "let g' = g(''Bitransformer.decode.beam_size'' \<mapsto> Gin_int beam_size,
              ''Bitransformer.decode.temperature'' \<mapsto> Gin_float temperature);
       args = \<lparr> im_estimator = self_estimator self,
                 im_vocabulary = self_vocabulary self,
                 im_sequence_length = self_sequence_length self,
                 im_batch_size = self_batch_size self,
                 im_model_type = self_model_type self,
                 im_model_dir = self_model_dir self,
                 im_checkpoint_step = checkpoint_step,
                 im_input_file = input_file,
                 im_output_file = output_file \<rparr>
   in predict env self g checkpoint_step input_file output_file beam_size temperature =
        (self, g',
         [Enter_unlock_config, Enter_config_scope ''decode'',
          Call_bind_parameter ''Bitransformer.decode.beam_size'' (Gin_int beam_size),
          Call_bind_parameter ''Bitransformer.decode.temperature'' (Gin_float temperature),
          Call_infer_model args,
          Exit_config_scope ''decode'', Exit_unlock_config],
         infer_model env g' args)"
  by (simp add: predict_def Let_def bind_parameter_def with_context_def and_then_def call_def)

text \<open>Claim C7 at a beam of 4 with temperature 1, which the caller contract forbids: the
  values are bound as given and the error is the one of the inference routine.\<close>

theorem predict_binds_and_delegates_witness:
  "snd (snd (snd (predict example_env example_model example_gin (CS_Int 1000)
      ''inputs.txt'' ''outputs.txt'' 4 1)))
     = Inl ''ValueError: beam search needs temperature 0''
   \<and> fst (snd (predict example_env example_model example_gin (CS_Int 1000)
      ''inputs.txt'' ''outputs.txt'' 4 1)) ''Bitransformer.decode.temperature''
     = Some (Gin_float 1)"
  using predict_binds_and_delegates [of example_gin 4 1 example_model "CS_Int 1000"
      "''inputs.txt''" "''outputs.txt''" example_env]
  by (simp add: Let_def example_env_def decode_rejected_def)

text \<open>
  Claim C3, as amended. Whenever \<^verbatim>\<open>predict\<close> is called with any \<^verbatim>\<open>beam_size\<close> and
  \<^verbatim>\<open>temperature\<close>, both contexts it entered are exited after the call, the scope before
  the lock, whether the inference routine returned or raised; the two decoding
  parameters are then bound to the values given to \<^verbatim>\<open>predict\<close>, not to the values they
  had before, and every other binding is as it was.
\<close>

theorem predict_leaves_bindings:
  "fst (snd (predict env self g checkpoint_step input_file output_file beam_size temperature))
     = g(''Bitransformer.decode.beam_size'' \<mapsto> Gin_int beam_size,
         ''Bitransformer.decode.temperature'' \<mapsto> Gin_float temperature)
   \<and> (\<exists>body. fst (snd (snd (predict env self g checkpoint_step input_file output_file
                              beam_size temperature)))
          = [Enter_unlock_config, Enter_config_scope ''decode''] @ body @
            [Exit_config_scope ''decode'', Exit_unlock_config])"
  by (simp add: predict_def Let_def bind_parameter_def with_context_def and_then_def call_def)

text \<open>Claim C3, as amended, at a call in which the inference routine raises.\<close>

theorem predict_leaves_bindings_witness:
  "fst (snd (predict example_env example_model example_gin (CS_Int 1000)
      ''inputs.txt'' ''outputs.txt'' 4 1)) ''Bitransformer.decode.beam_size''
     = Some (Gin_int 4)
   \<and> snd (snd (snd (predict example_env example_model example_gin (CS_Int 1000)
      ''inputs.txt'' ''outputs.txt'' 4 1)))
     = Inl ''ValueError: beam search needs temperature 0''"
proof -
  have "snd (snd (snd (predict example_env example_model example_gin (CS_Int 1000)
      ''inputs.txt'' ''outputs.txt'' 4 1)))
     = Inl ''ValueError: beam search needs temperature 0''"
    by (simp add: predict_def Let_def bind_parameter_def with_context_def and_then_def call_def
        example_env_def decode_rejected_def)
  then show ?thesis
    using predict_leaves_bindings [of example_env example_model example_gin "CS_Int 1000"
      "''inputs.txt''" "''outputs.txt''" 4 1]
    by simp
qed

text \<open>Claim C3 as stated fails: with the beam size bound to 1 before the call, a call
  with a beam of 4 that returns leaves it bound to 4.\<close>

theorem predict_restore_counterexample:
  "example_gin ''Bitransformer.decode.beam_size'' = Some (Gin_int 1)
   \<and> snd (snd (snd (predict example_env example_model example_gin (CS_Int 1000)
        ''inputs.txt'' ''outputs.txt'' 4 0))) = Inr ()
   \<and> fst (snd (predict example_env example_model example_gin (CS_Int 1000)
        ''inputs.txt'' ''outputs.txt'' 4 0)) ''Bitransformer.decode.beam_size''
       = Some (Gin_int 4)
   \<and> fst (snd (predict example_env example_model example_gin (CS_Int 1000)
        ''inputs.txt'' ''outputs.txt'' 4 0)) ''Bitransformer.decode.beam_size''
       \<noteq> example_gin ''Bitransformer.decode.beam_size''"
  by (simp add: predict_def Let_def bind_parameter_def with_context_def and_then_def call_def
      example_env_def example_gin_def decode_rejected_def)

subsection \<open>The object after construction\<close>

lemma invoke_keeps:
  assumes "invoke env (self, g, l0) m = (self', g', l)"
  shows "self' = self \<and> (\<exists>l1. l = l0 @ l1 \<and>
           (\<forall>c \<in> set l1. \<not> is_get_estimator c \<and> \<not> is_compute_batch_size c \<and>
              (\<forall>e b. passed_estimator c = Some (e, b) \<longrightarrow>
                  e = self_estimator self \<and> b = self_batch_size self)))"
  using assms
  by (cases m)
    (auto simp: train_def eval_method_def predict_def Let_def call_def and_then_def
      with_context_def split: prod.splits)

lemma run_keeps:
  assumes "run env (self, g, l0) calls = (self', g', l)"
  shows "self' = self \<and> (\<exists>l1. l = l0 @ l1 \<and>
           (\<forall>c \<in> set l1. \<not> is_get_estimator c \<and> \<not> is_compute_batch_size c \<and>
              (\<forall>e b. passed_estimator c = Some (e, b) \<longrightarrow>
                  e = self_estimator self \<and> b = self_batch_size self)))"
  using assms
proof (induction calls arbitrary: g l0)
  case Nil
  then show ?case by (simp add: run_def)
next
  case (Cons m calls)
  obtain s1 g1 l1 where i: "invoke env (self, g, l0) m = (s1, g1, l1)"
    by (metis prod_cases3)
  from invoke_keeps [OF i] obtain k1 where
    1: "s1 = self" "l1 = l0 @ k1"
       "\<forall>c \<in> set k1. \<not> is_get_estimator c \<and> \<not> is_compute_batch_size c \<and>
              (\<forall>e b. passed_estimator c = Some (e, b) \<longrightarrow>
                  e = self_estimator self \<and> b = self_batch_size self)"
    by blast
  from Cons.prems i 1 have "run env (self, g1, l0 @ k1) calls = (self', g', l)"
    by (simp add: run_def)
  from Cons.IH [OF this] obtain k2 where
    2: "self' = self" "l = (l0 @ k1) @ k2"
       "\<forall>c \<in> set k2. \<not> is_get_estimator c \<and> \<not> is_compute_batch_size c \<and>
              (\<forall>e b. passed_estimator c = Some (e, b) \<longrightarrow>
                  e = self_estimator self \<and> b = self_batch_size self)"
    by blast
  from 1(3) 2(3) have "\<forall>c \<in> set (k1 @ k2). \<not> is_get_estimator c \<and> \<not> is_compute_batch_size c \<and>
              (\<forall>e b. passed_estimator c = Some (e, b) \<longrightarrow>
                  e = self_estimator self \<and> b = self_batch_size self)"
    by auto
  with 2 show ?case by (metis append.assoc)
qed

lemma init_builds_once:
  assumes "snd (init env a) = Inr self"
  shows "length (filter is_get_estimator (fst (init env a))) = 1
       \<and> length (filter is_compute_batch_size (fst (init env a))) \<le> 1
       \<and> (\<exists>kw. Call_get_estimator kw \<in> set (fst (init env a))
             \<and> get_estimator env kw = Inr (self_estimator self))"
proof -
  let ?seq = "normalize_sequence_length (sequence_length a)"
  from init_returns [OF init_snd_returns [OF assms]]
  obtain mesh lv voc lb bs cluster rules shape est where
    v: "vocabulary_or_default env (vocabulary a) = (lv, Inr voc)" and
    b: "resolve_batch_size env ?seq mesh (layout_rules a) (batch_size a) = (lb, Inr bs)" and
    e: "get_estimator env (get_estimator_kwargs env a voc ?seq bs rules shape cluster) = Inr est" and
    l: "fst (init env a) = Call_tpu_mesh_shape (tpu_topology a) (model_parallelism a) # lv @ lb @
          [Call_TPUClusterResolver (tpu_or_empty (tpu a)) (tpu_zone a) (gcp_project a),
           Call_convert_to_layout_rules (layout_rules a),
           Call_convert_to_shape mesh,
           Call_get_estimator (get_estimator_kwargs env a voc ?seq bs rules shape cluster)]" and
    s: "self = new_MtfModel a voc ?seq bs est"
    by blast
  from v have lv: "lv = [] \<or> lv = [Call_SentencePieceVocabulary]"
    by (auto simp: vocabulary_or_default_def and_then_Inr call_Inr ret_Inr split: option.splits)
  from b have lb: "lb = [] \<or> (\<exists>x y z w. lb = [Call_compute_batch_size x y z w])"
    by (auto simp: resolve_batch_size_def call_def ret_def split: batch_size_arg.splits)
  from lv lb have 1: "length (filter is_get_estimator (fst (init env a))) = 1"
    by (auto simp: l)
  from lv lb have 2: "length (filter is_compute_batch_size (fst (init env a))) \<le> 1"
    by (auto simp: l)
  have "Call_get_estimator (get_estimator_kwargs env a voc ?seq bs rules shape cluster)
          \<in> set (fst (init env a))
        \<and> get_estimator env (get_estimator_kwargs env a voc ?seq bs rules shape cluster)
          = Inr (self_estimator self)"
    using e s by (simp add: l new_MtfModel_def)
  then have 3: "\<exists>kw. Call_get_estimator kw \<in> set (fst (init env a))
             \<and> get_estimator env kw = Inr (self_estimator self)"
    by blast
  from 1 2 3 show ?thesis by blast
qed

text \<open>
  Claim C8. After a constructor call that returned, every sequence of \<^verbatim>\<open>train\<close>,
  \<^verbatim>\<open>eval\<close> and \<^verbatim>\<open>predict\<close> calls leaves every stored field of the object as it was,
  calls neither \<^verbatim>\<open>get_estimator\<close> nor \<^verbatim>\<open>compute_batch_size\<close>, and hands to each of
  \<^verbatim>\<open>train_model\<close>, \<^verbatim>\<open>eval_model\<close> and \<^verbatim>\<open>infer_model\<close> the stored estimator and the
  stored batch size. The constructor has called \<^verbatim>\<open>get_estimator\<close> exactly once, for that
  estimator, and \<^verbatim>\<open>compute_batch_size\<close> at most once.
\<close>

theorem methods_keep_model:
  assumes "snd (init env a) = Inr self" and "run env (self, g, []) calls = (self', g', l)"
  shows "self' = self
       \<and> (\<forall>c \<in> set l. \<not> is_get_estimator c \<and> \<not> is_compute_batch_size c \<and>
              (\<forall>e b. passed_estimator c = Some (e, b) \<longrightarrow>
                  e = self_estimator self \<and> b = self_batch_size self))
       \<and> length (filter is_get_estimator (fst (init env a))) = 1
       \<and> length (filter is_compute_batch_size (fst (init env a))) \<le> 1
       \<and> (\<exists>kw. Call_get_estimator kw \<in> set (fst (init env a))
             \<and> get_estimator env kw = Inr (self_estimator self))"
  using run_keeps [OF assms(2)] init_builds_once [OF assms(1)] by simp

text \<open>Claim C8 at four calls on the object of the default arguments.\<close>

theorem methods_keep_model_witness:
  "snd (init example_env (default_args ''/tmp/model'' None)) = Inr example_model
   \<and> fst (run example_env (example_model, example_gin, [])
          [Train ''glue_mrpc_v002'' 1000,
           Predict (CS_Int 1000) ''inputs.txt'' ''outputs.txt'' 4 1,
           Eval ''glue_mrpc_v002'' (CS_List [500, 1000]) None ''validation'',
           Train ''glue_mrpc_v002'' 2000]) = example_model
   \<and> filter is_get_estimator
        (snd (snd (run example_env (example_model, example_gin, [])
          [Train ''glue_mrpc_v002'' 1000,
           Predict (CS_Int 1000) ''inputs.txt'' ''outputs.txt'' 4 1,
           Eval ''glue_mrpc_v002'' (CS_List [500, 1000]) None ''validation'',
           Train ''glue_mrpc_v002'' 2000]))) = []
   \<and> length (filter is_get_estimator
        (fst (init example_env (default_args ''/tmp/model'' None)))) = 1"
proof -
  let ?a = "default_args ''/tmp/model'' None :: string init_args"
  let ?calls = "[Train ''glue_mrpc_v002'' 1000,
           Predict (CS_Int 1000) ''inputs.txt'' ''outputs.txt'' 4 1,
           Eval ''glue_mrpc_v002'' (CS_List [500, 1000]) None ''validation'',
           Train ''glue_mrpc_v002'' 2000]"
  have h: "snd (init example_env ?a) = Inr example_model"
    by (simp add: init_example_env example_model_def default_args_def
        normalize_sequence_length_def)
  obtain self' g' l where
    r: "run example_env (example_model, example_gin, []) ?calls = (self', g', l)"
    by (metis prod_cases3)
  from methods_keep_model [OF h r]
  have "self' = example_model" and "\<forall>c \<in> set l. \<not> is_get_estimator c"
    and "length (filter is_get_estimator (fst (init example_env ?a))) = 1"
    by blast+
  then have "self' = example_model" and "filter is_get_estimator l = []"
    and "length (filter is_get_estimator (fst (init example_env ?a))) = 1"
    by (simp_all add: filter_empty_conv)
  with h r show ?thesis by simp
qed

subsection \<open>Training on an unregistered name\<close>

text \<open>
  Claim C9, against the registry, the dataset function and the training routine as the
  spec describes them. If the name is not registered, \<^verbatim>\<open>train\<close> raises the error that
  carries the name, and the training call it made has constructed no dataset.
\<close>

theorem train_unregistered_name:
  assumes "registry name = None"
    and "train_model env = (\<lambda>args. snd (train_model_spec registry fit args))"
  shows "snd (snd (train env self name steps)) = Inl (Unregistered_name name)
       \<and> (\<forall>args. Call_train_model args \<in> set (fst (snd (train env self name steps))) \<longrightarrow>
            (\<forall>n. Dataset_constructed n \<notin> set (fst (train_model_spec registry fit args))))"
  using assms
  by (auto simp: train_def Let_def call_def train_model_spec_def mesh_train_dataset_fn_def
      and_then_def)

text \<open>Claim C9 at \<^verbatim>\<open>train("unregistered_name", 100)\<close>, over a registry that holds one
  other name.\<close>

theorem train_unregistered_name_witness:
  "snd (snd (train (registry_env [''glue_mrpc_v002'' \<mapsto> (1::nat)]) example_model
               ''unregistered_name'' 100))
     = Inl (Unregistered_name ''unregistered_name'')"
proof -
  let ?reg = "[''glue_mrpc_v002'' \<mapsto> (1::nat)]"
  have 1: "?reg ''unregistered_name'' = None" by simp
  have 2: "train_model (registry_env ?reg)
             = (\<lambda>args. snd (train_model_spec ?reg (\<lambda>a ds. Inr ()) args))"
    by (simp add: registry_env_def)
  from train_unregistered_name [OF 1 2] show ?thesis by blast
qed

end
